theory Spec2Isabelle
  imports Main "HOL-Library.Multiset"
begin

section \<open>The menu filtering engine of HORP Bot (src/engine.js)\<close>

text \<open>
  The engine classifies the items of a menu catalog against a diner's profile. The
  catalog (\<^verbatim>\<open>menuData.items\<close>, read once from menu.json) is a parameter of every function
  that reads it. Identifiers (allergens, ingredient flags, dietary tags) are JavaScript
  strings and are compared with \<^verbatim>\<open>===\<close> and \<^verbatim>\<open>includes\<close>, that is by equality.

  An optional array field that the source reads as \<^verbatim>\<open>x || []\<close> is a list, the absent field
  being the empty list. The two lookup tables of the engine are object literals that are
  read by key; the model reads them by their own keys, so an identifier is taken to be an
  ordinary name and not the name of a member every object literal inherits
  (\<^verbatim>\<open>constructor\<close>, \<^verbatim>\<open>toString\<close>, ...).
\<close>

subsection \<open>Data model\<close>

record component =
  component_name :: string
  contains_allergens :: "string list"
  contains_ingredient_flags :: "string list"
  component_notes :: "string option"

text \<open>The trigger condition \<^verbatim>\<open>when\<close> of a modification.\<close>

record trigger =
  avoid_allergens :: "string list"
  avoid_ingredient_flags :: "string list"

record modification =
  action :: string
  target_component :: string
  substitute_with :: "string option"
  mod_when :: "trigger option"

record menu_item =
  item_id :: string
  item_name :: string
  item_category :: string
  components :: "component list"
  item_modifications :: "modification list"
  tags :: "string list"
  cross_contact_risk :: "string list"

text \<open>
  The verdict on one item (\<^verbatim>\<open>itemStatus\<close>). The fields \<^verbatim>\<open>modifications\<close>,
  \<^verbatim>\<open>tolerance_notes\<close> and \<^verbatim>\<open>toleranceAllowed\<close> are absent until the engine sets them.
\<close>

record item_status =
  status_id :: string
  status_name :: string
  status_category :: string
  reasons :: "string list"
  modifications :: "modification list option"
  tolerance_notes :: "string list option"
  toleranceAllowed :: bool

record results =
  safe :: "item_status list"
  filtered :: "item_status list"
  canBeModified :: "item_status list"

subsection \<open>Strings\<close>

text \<open>\<^verbatim>\<open>xs.join(sep)\<close>.\<close>

fun join :: "string list \<Rightarrow> string \<Rightarrow> string" where
  "join [] sep = []"
| "join [x] sep = x"
| "join (x # y # ys) sep = x @ sep @ join (y # ys) sep"

text \<open>The component name between double quotes, as the reason strings start.\<close>

definition quoted :: "string \<Rightarrow> string" where
  "quoted s = CHR 0x22 # s @ [CHR 0x22]"

subsection \<open>Dietary check\<close>

text \<open>
  The functions that push onto \<^verbatim>\<open>itemStatus.reasons\<close> take the reason list and return it
  updated, next to their boolean result. The \<^verbatim>\<open>for\<close> loop of \<^verbatim>\<open>checkDietaryCompliance\<close>
  returns at the first preference that fails.
\<close>

fun checkDietaryPreferences :: "bool \<Rightarrow> bool \<Rightarrow> string list \<Rightarrow> string list \<Rightarrow> bool \<times> string list" where
  "checkDietaryPreferences vegetarianItems veganItems [] rs = (True, rs)"
| "checkDietaryPreferences vegetarianItems veganItems (pref # prefs) rs =
     (if pref = ''vegetarian'' \<and> \<not> vegetarianItems
      then (False, rs @ [''Contains meat or animal products - not vegetarian''])
      else if pref = ''vegan'' \<and> \<not> veganItems
      then (False, rs @ [''Contains dairy, eggs or animal products - not vegan''])
      else checkDietaryPreferences vegetarianItems veganItems prefs rs)"

definition checkDietaryCompliance :: "menu_item \<Rightarrow> string list \<Rightarrow> string list \<Rightarrow> bool \<times> string list" where
  "checkDietaryCompliance item dietaryPreferences rs =
     (if dietaryPreferences = [] then (True, rs)
      else checkDietaryPreferences
             (''vegetarian'' \<in> set (tags item)) (''vegan'' \<in> set (tags item))
             dietaryPreferences rs)"

subsection \<open>Related forms and tolerability\<close>

text \<open>The table \<^verbatim>\<open>relations\<close> of \<^verbatim>\<open>isRelatedToAllergen\<close>.\<close>

definition relations :: "string \<Rightarrow> string list option" where
  "relations allergen =
     (if allergen = ''sesame'' then Some [''sesame_seed'', ''sesame_oil'']
      else if allergen = ''peanut'' then Some [''peanut_oil'']
      else if allergen = ''gluten'' then Some [''soy_sauce'']
      else if allergen = ''shellfish'' then Some [''oyster_sauce'']
      else None)"

definition isRelatedToAllergen :: "string \<Rightarrow> string \<Rightarrow> bool" where
  "isRelatedToAllergen flag allergen =
     (let relatedFlags = (case relations allergen of Some fs \<Rightarrow> fs | None \<Rightarrow> [])
      in flag \<in> set relatedFlags)"

definition isAllergenTolerable :: "component \<Rightarrow> string \<Rightarrow> string list \<Rightarrow> bool" where
  "isAllergenTolerable component allergen tolerateFlags =
     (if tolerateFlags = [] then False
      else
        (let componentFlags = contains_ingredient_flags component;
             toleratedFormsOfAllergen =
               filter (\<lambda>flag. isRelatedToAllergen flag allergen) tolerateFlags
         in list_ex (\<lambda>toleratedFlag. toleratedFlag \<in> set componentFlags)
              toleratedFormsOfAllergen))"

subsection \<open>Compliance check\<close>

text \<open>
  The body of the loop over the components in \<^verbatim>\<open>checkCompliance\<close>: it takes and returns
  the reason list and \<^verbatim>\<open>hasIssue\<close>.
\<close>

definition checkCompliance_component ::
  "string list \<Rightarrow> string list \<Rightarrow> string list \<Rightarrow> component \<Rightarrow> string list \<times> bool \<Rightarrow> string list \<times> bool" where
  "checkCompliance_component allergies avoidIngredientFlags tolerateFlags component st =
     (let forbiddenAllergens =
            filter (\<lambda>allergen. allergen \<in> set allergies) (contains_allergens component);
          st1 =
            (if forbiddenAllergens \<noteq> [] then
               (let tolerableAllergens =
                      filter (\<lambda>allergen. isAllergenTolerable component allergen tolerateFlags)
                        forbiddenAllergens;
                    intolerablea =
                      filter (\<lambda>a. a \<notin> set tolerableAllergens) forbiddenAllergens
                in if intolerablea \<noteq> [] then
                     (fst st @ [quoted (component_name component)
                         @ '' contains intolerable allergen(s): '' @ join intolerablea '', ''],
                      True)
                   else if tolerableAllergens \<noteq> [] then
                     (fst st @ [quoted (component_name component)
                         @ '' contains tolerated form: '' @ join tolerableAllergens '', ''],
                      snd st)
                   else st)
             else st);
          forbiddenFlags =
            filter (\<lambda>flag. flag \<in> set avoidIngredientFlags) (contains_ingredient_flags component)
      in if forbiddenFlags \<noteq> [] then
           (fst st1 @ [quoted (component_name component)
               @ '' contains ingredient flag(s): '' @ join forbiddenFlags '', ''],
            True)
         else st1)"

text \<open>The cross-contact check that ends both compliance functions.\<close>

definition checkCrossContact ::
  "string list \<Rightarrow> string list \<Rightarrow> bool \<Rightarrow> string list \<times> bool \<Rightarrow> string list \<times> bool" where
  "checkCrossContact crossContactRisk allergies crossContactOk st =
     (if \<not> crossContactOk \<and> crossContactRisk \<noteq> [] then
        (let forbiddenRisks = filter (\<lambda>risk. risk \<in> set allergies) crossContactRisk
         in if forbiddenRisks \<noteq> [] then
              (fst st @ [''Cross-contact risk: '' @ join forbiddenRisks '', ''], True)
            else st)
      else st)"

definition checkCompliance ::
  "menu_item \<Rightarrow> string list \<Rightarrow> string list \<Rightarrow> bool \<Rightarrow> string list \<Rightarrow> string list \<Rightarrow> bool \<times> string list" where
  "checkCompliance item allergies avoidIngredientFlags crossContactOk tolerateFlags rs =
     (if allergies = [] \<and> avoidIngredientFlags = [] then (True, rs)
      else
        (let st = fold (checkCompliance_component allergies avoidIngredientFlags tolerateFlags)
                    (components item) (rs, False);
             st' = checkCrossContact (cross_contact_risk item) allergies crossContactOk st
         in (\<not> snd st', fst st')))"

subsection \<open>Modifications\<close>

text \<open>The filter predicate shared by the two places that select the applicable modifications.\<close>

definition isApplicable :: "string list \<Rightarrow> string list \<Rightarrow> modification \<Rightarrow> bool" where
  "isApplicable allergies avoidIngredientFlags m =
     (case mod_when m of
        None \<Rightarrow> False
      | Some w \<Rightarrow>
          if avoid_allergens w \<noteq> [] \<and> list_ex (\<lambda>allergen. allergen \<in> set allergies) (avoid_allergens w)
          then True
          else if avoid_ingredient_flags w \<noteq> []
                  \<and> list_ex (\<lambda>flag. flag \<in> set avoidIngredientFlags) (avoid_ingredient_flags w)
          then True
          else False)"

definition getApplicableModifications :: "menu_item \<Rightarrow> string list \<Rightarrow> string list \<Rightarrow> modification list" where
  "getApplicableModifications item allergies avoidIngredientFlags =
     filter (isApplicable allergies avoidIngredientFlags) (item_modifications item)"

text \<open>
  \<^verbatim>\<open>applyModification\<close> works on a deep copy of the component list, which is the list
  itself as a value. A substituted component keeps the target's name and carries a note;
  a missing \<^verbatim>\<open>substitute_with\<close> prints as \<^verbatim>\<open>undefined\<close>.
\<close>

definition applyModification :: "component list \<Rightarrow> modification \<Rightarrow> component list" where
  "applyModification comps modification =
     (if action modification = ''remove'' then
        filter (\<lambda>comp. component_name comp \<noteq> target_component modification) comps
      else if action modification = ''substitute'' then
        map (\<lambda>comp.
               if component_name comp = target_component modification then
                 \<lparr>component_name = target_component modification,
                  contains_allergens = [],
                  contains_ingredient_flags = [],
                  component_notes = Some (''substituted with ''
                    @ (case substitute_with modification of None \<Rightarrow> ''undefined'' | Some s \<Rightarrow> s))\<rparr>
               else comp) comps
      else comps)"

text \<open>
  The loop body of \<^verbatim>\<open>checkComplianceOnComponents\<close>: as in \<^verbatim>\<open>checkCompliance\<close>, without
  the reason for a tolerated form.
\<close>

definition checkComplianceOnComponents_component ::
  "string list \<Rightarrow> string list \<Rightarrow> string list \<Rightarrow> component \<Rightarrow> string list \<times> bool \<Rightarrow> string list \<times> bool" where
  "checkComplianceOnComponents_component allergies avoidIngredientFlags tolerateFlags component st =
     (let forbiddenAllergens =
            filter (\<lambda>allergen. allergen \<in> set allergies) (contains_allergens component);
          st1 =
            (if forbiddenAllergens \<noteq> [] then
               (let tolerableAllergens =
                      filter (\<lambda>allergen. isAllergenTolerable component allergen tolerateFlags)
                        forbiddenAllergens;
                    intolerablea =
                      filter (\<lambda>a. a \<notin> set tolerableAllergens) forbiddenAllergens
                in if intolerablea \<noteq> [] then
                     (fst st @ [quoted (component_name component)
                         @ '' contains intolerable allergen(s): '' @ join intolerablea '', ''],
                      True)
                   else st)
             else st);
          forbiddenFlags =
            filter (\<lambda>flag. flag \<in> set avoidIngredientFlags) (contains_ingredient_flags component)
      in if forbiddenFlags \<noteq> [] then
           (fst st1 @ [quoted (component_name component)
               @ '' contains ingredient flag(s): '' @ join forbiddenFlags '', ''],
            True)
         else st1)"

definition checkComplianceOnComponents ::
  "component list \<Rightarrow> string list \<Rightarrow> string list \<Rightarrow> string list \<Rightarrow> bool \<Rightarrow> string list \<Rightarrow> string list
     \<Rightarrow> bool \<times> string list" where
  "checkComplianceOnComponents comps crossContactRisk allergies avoidIngredientFlags crossContactOk
       tolerateFlags rs =
     (if allergies = [] \<and> avoidIngredientFlags = [] then (True, rs)
      else
        (let st = fold (checkComplianceOnComponents_component allergies avoidIngredientFlags tolerateFlags)
                    comps (rs, False);
             st' = checkCrossContact crossContactRisk allergies crossContactOk st
         in (\<not> snd st', fst st')))"

definition canModificationsMakeItemSafe ::
  "menu_item \<Rightarrow> string list \<Rightarrow> string list \<Rightarrow> bool \<Rightarrow> string list \<Rightarrow> bool" where
  "canModificationsMakeItemSafe item allergies avoidIngredientFlags crossContactOk tolerateFlags =
     (if item_modifications item = [] then False
      else
        (let applicableMods =
               filter (isApplicable allergies avoidIngredientFlags) (item_modifications item)
         in if applicableMods = [] then False
            else
              (let effectiveComponents =
                     fold (\<lambda>m effective. applyModification effective m) applicableMods (components item)
               in fst (checkComplianceOnComponents effectiveComponents (cross_contact_risk item)
                         allergies avoidIngredientFlags crossContactOk tolerateFlags []))))"

subsection \<open>Layer 1: the combined evaluation\<close>

definition initialStatus :: "menu_item \<Rightarrow> item_status" where
  "initialStatus item =
     \<lparr>status_id = item_id item, status_name = item_name item,
      status_category = item_category item, reasons = [],
      modifications = None, tolerance_notes = None, toleranceAllowed = False\<rparr>"

definition emptyResults :: results where
  "emptyResults = \<lparr>safe = [], filtered = [], canBeModified = []\<rparr>"

text \<open>The body of the loop over the catalog: it pushes the item's verdict onto one list.\<close>

definition filterItem ::
  "string list \<Rightarrow> string list \<Rightarrow> string list \<Rightarrow> bool \<Rightarrow> string list \<Rightarrow> menu_item \<Rightarrow> results \<Rightarrow> results" where
  "filterItem dietaryPreferences allergies avoidIngredientFlags crossContactOk tolerateFlags item res =
     (let d = checkDietaryCompliance item dietaryPreferences [];
          isDietaryCompliant = fst d;
          c = checkCompliance item allergies avoidIngredientFlags crossContactOk tolerateFlags (snd d);
          isCompliant = fst c;
          itemStatus = (initialStatus item)\<lparr>reasons := snd c\<rparr>;
          canBeModifiedToSafe =
            (if \<not> isCompliant \<and> item_modifications item \<noteq> [] then
               canModificationsMakeItemSafe item allergies avoidIngredientFlags crossContactOk tolerateFlags
             else False);
          applicableMods =
            (if canBeModifiedToSafe then getApplicableModifications item allergies avoidIngredientFlags
             else [])
      in if isDietaryCompliant \<and> isCompliant then
           res\<lparr>safe := safe res @ [itemStatus]\<rparr>
         else if canBeModifiedToSafe then
           res\<lparr>canBeModified := canBeModified res @ [itemStatus\<lparr>modifications := Some applicableMods\<rparr>]\<rparr>
         else
           res\<lparr>filtered := filtered res @ [itemStatus]\<rparr>)"

definition filterByDietaryAndAllergies ::
  "menu_item list \<Rightarrow> string list \<Rightarrow> string list \<Rightarrow> string list \<Rightarrow> bool \<Rightarrow> string list \<Rightarrow> results" where
  "filterByDietaryAndAllergies menu dietaryPreferences allergies avoidIngredientFlags crossContactOk
       tolerateFlags =
     fold (filterItem dietaryPreferences allergies avoidIngredientFlags crossContactOk tolerateFlags)
       menu emptyResults"

subsection \<open>Layer 2: the tolerance refiner\<close>

text \<open>
  A tolerance declaration is an object keyed by allergen whose values are objects keyed by
  the question (\<^verbatim>\<open>{ gluten: { canUseSoySauce: true } }\<close>): a list of the keys with their
  values, read with \<^const>\<open>map_of\<close>.
\<close>

type_synonym tolerances = "(string \<times> (string \<times> bool) list) list"

record tolerance_form =
  form_flag :: string
  form_key :: string

definition toleranceMapping :: "string \<Rightarrow> tolerance_form option" where
  "toleranceMapping allergen =
     (if allergen = ''gluten'' then Some \<lparr>form_flag = ''soy_sauce'', form_key = ''canUseSoySauce''\<rparr>
      else if allergen = ''shellfish''
        then Some \<lparr>form_flag = ''oyster_sauce'', form_key = ''canUseOysterSauce''\<rparr>
      else if allergen = ''peanut'' then Some \<lparr>form_flag = ''peanut_oil'', form_key = ''canUsePeanutOil''\<rparr>
      else if allergen = ''sesame'' then Some \<lparr>form_flag = ''sesame_oil'', form_key = ''canUseSesameOil''\<rparr>
      else None)"

text \<open>The loop of \<^verbatim>\<open>checkIfOnlyTolerablyPresent\<close> over the components.\<close>

fun onlyTolerablyPresent :: "component list \<Rightarrow> string \<Rightarrow> string \<Rightarrow> bool" where
  "onlyTolerablyPresent [] allergen tolerableFlag = True"
| "onlyTolerablyPresent (component # rest) allergen tolerableFlag =
     (let hasAllergen = allergen \<in> set (contains_allergens component)
      in if hasAllergen then
           (let flags = contains_ingredient_flags component;
                hasTolerablyForm = tolerableFlag \<in> set flags;
                hasOtherForms =
                  filter (\<lambda>f. f \<noteq> tolerableFlag \<and> isRelatedToAllergen f allergen) flags \<noteq> []
            in if hasOtherForms then False
               else if \<not> hasTolerablyForm then False
               else onlyTolerablyPresent rest allergen tolerableFlag)
         else onlyTolerablyPresent rest allergen tolerableFlag)"

definition checkIfOnlyTolerablyPresent :: "menu_item \<Rightarrow> string \<Rightarrow> string \<Rightarrow> bool" where
  "checkIfOnlyTolerablyPresent item allergen tolerableFlag =
     onlyTolerablyPresent (components item) allergen tolerableFlag"

text \<open>
  The loop of \<^verbatim>\<open>filterByTolerance\<close> over the avoided allergens, for one filtered item:
  it returns \<^verbatim>\<open>isSafeWithTolerance\<close> and \<^verbatim>\<open>toleranceReasoning\<close>, and stops at the first
  allergen that is not only tolerably present.
\<close>

fun toleranceLoop :: "menu_item \<Rightarrow> tolerances \<Rightarrow> string list \<Rightarrow> string list \<Rightarrow> bool \<times> string list" where
  "toleranceLoop originalItem tolerances [] toleranceReasoning = (True, toleranceReasoning)"
| "toleranceLoop originalItem tolerances (allergen # rest) toleranceReasoning =
     (case toleranceMapping allergen of
        None \<Rightarrow> toleranceLoop originalItem tolerances rest toleranceReasoning
      | Some mapping \<Rightarrow>
          (case map_of tolerances allergen of
             None \<Rightarrow> toleranceLoop originalItem tolerances rest toleranceReasoning
           | Some tolerance \<Rightarrow>
               if map_of tolerance (form_key mapping) \<noteq> Some True
               then toleranceLoop originalItem tolerances rest toleranceReasoning
               else if \<not> checkIfOnlyTolerablyPresent originalItem allergen (form_flag mapping)
               then (False, toleranceReasoning)
               else toleranceLoop originalItem tolerances rest
                      (toleranceReasoning
                         @ [''Can tolerate '' @ allergen @ '' in form: '' @ form_flag mapping])))"

text \<open>The body of the loop over the filtered items.\<close>

definition refineItem :: "menu_item list \<Rightarrow> string list \<Rightarrow> tolerances \<Rightarrow> item_status \<Rightarrow> results \<Rightarrow> results" where
  "refineItem menu allergies tolerances filteredItem refinedResults =
     (case find (\<lambda>item. item_id item = status_id filteredItem) menu of
        None \<Rightarrow> refinedResults\<lparr>filtered := filtered refinedResults @ [filteredItem]\<rparr>
      | Some originalItem \<Rightarrow>
          (let t = toleranceLoop originalItem tolerances allergies [];
               isSafeWithTolerance = fst t;
               toleranceReasoning = snd t
           in if isSafeWithTolerance \<and> toleranceReasoning \<noteq> [] then
                refinedResults\<lparr>safe := safe refinedResults
                  @ [filteredItem\<lparr>tolerance_notes := Some toleranceReasoning, toleranceAllowed := True\<rparr>]\<rparr>
              else refinedResults\<lparr>filtered := filtered refinedResults @ [filteredItem]\<rparr>))"

definition filterByTolerance :: "menu_item list \<Rightarrow> results \<Rightarrow> string list \<Rightarrow> tolerances \<Rightarrow> results" where
  "filterByTolerance menu layer1Results allergies tolerances =
     (if tolerances = [] then layer1Results
      else fold (refineItem menu allergies tolerances) (filtered layer1Results)
             \<lparr>safe = safe layer1Results, filtered = [], canBeModified = canBeModified layer1Results\<rparr>)"

subsection \<open>The multi-allergy report\<close>

text \<open>A field that the profile object lacks is \<^const>\<open>None\<close> and takes its default.\<close>

record tableProfile =
  dietaryPreferences :: "string list option"
  avoidAllergens :: "string list option"
  avoidIngredientFlags :: "string list option"
  tolerateFlags :: "string list option"
  crossContactOk :: "bool option"

record report =
  safeForAll :: "item_status list"
  safeByAllergy :: "string \<rightharpoonup> item_status list"

definition orDefault :: "'a option \<Rightarrow> 'a \<Rightarrow> 'a" where
  "orDefault field dflt = (case field of None \<Rightarrow> dflt | Some v \<Rightarrow> v)"

definition runMultiAllergyReport :: "menu_item list \<Rightarrow> tableProfile \<Rightarrow> report" where
  "runMultiAllergyReport menu profile =
     (let dp = orDefault (dietaryPreferences profile) [];
          al = orDefault (avoidAllergens profile) [];
          af = orDefault (avoidIngredientFlags profile) [];
          tf = orDefault (tolerateFlags profile) [];
          cc = orDefault (crossContactOk profile) False;
          combinedResults = filterByDietaryAndAllergies menu dp al af cc tf
      in fold (\<lambda>allergen rep.
                 rep\<lparr>safeByAllergy := (safeByAllergy rep)
                   (allergen \<mapsto> safe (filterByDietaryAndAllergies menu dp [allergen] af cc tf))\<rparr>)
           al \<lparr>safeForAll = safe combinedResults, safeByAllergy = Map.empty\<rparr>)"

section \<open>Notions used in the statements\<close>

text \<open>
  The identifiers of the verdicts in the three buckets of a result, bucket after bucket.
\<close>

definition bucket_ids :: "results \<Rightarrow> string list" where
  "bucket_ids r = map status_id (safe r) @ map status_id (canBeModified r) @ map status_id (filtered r)"

text \<open>
  What the loop bodies of the two compliance functions compute for one component: the
  avoided allergens that are not tolerable in it (\<^verbatim>\<open>intolerablea\<close>), its avoided flags
  (\<^verbatim>\<open>forbiddenFlags\<close>), and the three reason strings.
\<close>

definition intolerableAllergens :: "string list \<Rightarrow> string list \<Rightarrow> component \<Rightarrow> string list" where
  "intolerableAllergens al tf c =
     filter (\<lambda>a. a \<in> set al \<and> \<not> isAllergenTolerable c a tf) (contains_allergens c)"

definition forbiddenFlagsOf :: "string list \<Rightarrow> component \<Rightarrow> string list" where
  "forbiddenFlagsOf af c = filter (\<lambda>f. f \<in> set af) (contains_ingredient_flags c)"

definition componentIssue :: "string list \<Rightarrow> string list \<Rightarrow> string list \<Rightarrow> component \<Rightarrow> bool" where
  "componentIssue al af tf c = (intolerableAllergens al tf c \<noteq> [] \<or> forbiddenFlagsOf af c \<noteq> [])"

definition flagReason :: "string list \<Rightarrow> component \<Rightarrow> string" where
  "flagReason af c = quoted (component_name c) @ '' contains ingredient flag(s): ''
     @ join (forbiddenFlagsOf af c) '', ''"

definition allergenReason :: "string list \<Rightarrow> string list \<Rightarrow> component \<Rightarrow> string" where
  "allergenReason al tf c = quoted (component_name c) @ '' contains intolerable allergen(s): ''
     @ join (intolerableAllergens al tf c) '', ''"

definition toleratedReason :: "string list \<Rightarrow> component \<Rightarrow> string" where
  "toleratedReason al c = quoted (component_name c) @ '' contains tolerated form: ''
     @ join (filter (\<lambda>a. a \<in> set al) (contains_allergens c)) '', ''"

text \<open>The profile object without any field.\<close>

definition emptyProfile :: tableProfile where
  "emptyProfile = \<lparr>dietaryPreferences = None, avoidAllergens = None, avoidIngredientFlags = None,
     tolerateFlags = None, crossContactOk = None\<rparr>"

text \<open>
  An item with a single component and no modification, tag aside, and the component of
  the sesame-oil scenario: the allergen sesame with the flag sesame_oil only.
\<close>

definition oneComponentItem :: "string \<Rightarrow> string \<Rightarrow> string \<Rightarrow> string list \<Rightarrow> component \<Rightarrow> menu_item" where
  "oneComponentItem i n k tg c =
     \<lparr>item_id = i, item_name = n, item_category = k, components = [c],
      item_modifications = [], tags = tg, cross_contact_risk = []\<rparr>"

definition sesameOilComponent :: "string \<Rightarrow> string option \<Rightarrow> component" where
  "sesameOilComponent cn nt =
     \<lparr>component_name = cn, contains_allergens = [''sesame''],
      contains_ingredient_flags = [''sesame_oil''], component_notes = nt\<rparr>"

section \<open>An example catalog\<close>

definition rice :: component where
  "rice = \<lparr>component_name = ''rice'', contains_allergens = [],
     contains_ingredient_flags = [], component_notes = None\<rparr>"

definition chicken :: component where
  "chicken = \<lparr>component_name = ''chicken'', contains_allergens = [],
     contains_ingredient_flags = [], component_notes = None\<rparr>"

definition soy_glaze :: component where
  "soy_glaze = \<lparr>component_name = ''soy glaze'', contains_allergens = [''gluten''],
     contains_ingredient_flags = [''soy_sauce''], component_notes = None\<rparr>"

definition noodles :: component where
  "noodles = \<lparr>component_name = ''noodles'', contains_allergens = [''gluten''],
     contains_ingredient_flags = [], component_notes = None\<rparr>"

definition dressing :: component where
  "dressing = \<lparr>component_name = ''dressing'', contains_allergens = [''sesame''],
     contains_ingredient_flags = [''sesame_oil''], component_notes = None\<rparr>"

definition sesame_topping :: component where
  "sesame_topping = \<lparr>component_name = ''sesame topping'', contains_allergens = [''sesame''],
     contains_ingredient_flags = [''sesame_seed''], component_notes = None\<rparr>"

definition tofu :: component where
  "tofu = \<lparr>component_name = ''tofu'', contains_allergens = [''soy''],
     contains_ingredient_flags = [], component_notes = None\<rparr>"

definition remove_glaze :: modification where
  "remove_glaze = \<lparr>action = ''remove'', target_component = ''soy glaze'', substitute_with = None,
     mod_when = Some \<lparr>avoid_allergens = [''gluten''], avoid_ingredient_flags = []\<rparr>\<rparr>"

definition substitute_noodles :: modification where
  "substitute_noodles = \<lparr>action = ''substitute'', target_component = ''noodles'',
     substitute_with = Some ''rice noodles'',
     mod_when = Some \<lparr>avoid_allergens = [''gluten''], avoid_ingredient_flags = []\<rparr>\<rparr>"

definition remove_topping :: modification where
  "remove_topping = \<lparr>action = ''remove'', target_component = ''sesame topping'',
     substitute_with = None,
     mod_when = Some \<lparr>avoid_allergens = [''sesame''], avoid_ingredient_flags = []\<rparr>\<rparr>"

definition steamed_rice :: menu_item where
  "steamed_rice = \<lparr>item_id = ''m1'', item_name = ''Steamed rice'', item_category = ''sides'',
     components = [rice], item_modifications = [], tags = [''vegetarian'', ''vegan''],
     cross_contact_risk = []\<rparr>"

definition glazed_chicken :: menu_item where
  "glazed_chicken = \<lparr>item_id = ''m2'', item_name = ''Glazed chicken'', item_category = ''mains'',
     components = [chicken, soy_glaze], item_modifications = [remove_glaze], tags = [],
     cross_contact_risk = []\<rparr>"

definition wheat_noodles :: menu_item where
  "wheat_noodles = \<lparr>item_id = ''m3'', item_name = ''Wheat noodles'', item_category = ''mains'',
     components = [noodles, dressing], item_modifications = [],
     tags = [''vegetarian'', ''vegan''], cross_contact_risk = []\<rparr>"

definition sesame_bowl :: menu_item where
  "sesame_bowl = \<lparr>item_id = ''m4'', item_name = ''Sesame noodle bowl'', item_category = ''mains'',
     components = [noodles, sesame_topping, rice],
     item_modifications = [substitute_noodles, remove_topping],
     tags = [''vegetarian''], cross_contact_risk = []\<rparr>"

definition fried_tofu :: menu_item where
  "fried_tofu = \<lparr>item_id = ''m5'', item_name = ''Fried tofu'', item_category = ''starters'',
     components = [tofu], item_modifications = [], tags = [''vegetarian'', ''vegan''],
     cross_contact_risk = [''peanut'', ''shellfish'']\<rparr>"

definition demo_menu :: "menu_item list" where
  "demo_menu = [steamed_rice, glazed_chicken, wheat_noodles]"

definition sesameTolerance :: tolerances where
  "sesameTolerance = [(''sesame'', [(''canUseSesameOil'', True)])]"

definition glutenProfile :: tableProfile where
  "glutenProfile = \<lparr>dietaryPreferences = None, avoidAllergens = Some [''gluten''],
     avoidIngredientFlags = None, tolerateFlags = None, crossContactOk = None\<rparr>"

definition sesameProfile :: tableProfile where
  "sesameProfile = \<lparr>dietaryPreferences = None, avoidAllergens = Some [''sesame''],
     avoidIngredientFlags = None, tolerateFlags = None, crossContactOk = None\<rparr>"

section \<open>Evaluation on concrete data\<close>

lemmas engine_defs = filterByDietaryAndAllergies_def filterItem_def emptyResults_def initialStatus_def
  checkDietaryCompliance_def checkCompliance_def checkCompliance_component_def checkCrossContact_def
  canModificationsMakeItemSafe_def getApplicableModifications_def isApplicable_def applyModification_def
  checkComplianceOnComponents_def checkComplianceOnComponents_component_def
  isAllergenTolerable_def isRelatedToAllergen_def relations_def quoted_def Let_def

lemmas refiner_defs = filterByTolerance_def refineItem_def toleranceMapping_def
  checkIfOnlyTolerablyPresent_def

lemmas demo_defs = demo_menu_def steamed_rice_def glazed_chicken_def wheat_noodles_def
  sesame_bowl_def fried_tofu_def rice_def chicken_def soy_glaze_def noodles_def dressing_def
  sesame_topping_def tofu_def remove_glaze_def substitute_noodles_def remove_topping_def
  sesameTolerance_def glutenProfile_def sesameProfile_def

section \<open>The dietary check\<close>

lemma checkDietaryPreferences_unknown:
  "''vegetarian'' \<notin> set prefs \<Longrightarrow> ''vegan'' \<notin> set prefs \<Longrightarrow>
     checkDietaryPreferences v g prefs rs = (True, rs)"
  by (induction prefs) auto

lemma checkDietaryCompliance_unknown:
  "''vegetarian'' \<notin> set prefs \<Longrightarrow> ''vegan'' \<notin> set prefs \<Longrightarrow>
     checkDietaryCompliance item prefs rs = (True, rs)"
  by (simp add: checkDietaryCompliance_def checkDietaryPreferences_unknown)

text \<open>A dietary check that passes has pushed no reason.\<close>

lemma checkDietaryPreferences_True:
  "fst (checkDietaryPreferences v g prefs rs) \<Longrightarrow> snd (checkDietaryPreferences v g prefs rs) = rs"
  by (induction prefs) (auto split: if_splits)

lemma checkDietaryCompliance_True:
  "fst (checkDietaryCompliance item dp rs) \<Longrightarrow> snd (checkDietaryCompliance item dp rs) = rs"
  by (auto simp: checkDietaryCompliance_def checkDietaryPreferences_True split: if_splits)

section \<open>The compliance check, component by component\<close>

lemma filter_not_in_filter:
  "filter (\<lambda>a. a \<notin> set (filter P xs)) xs = filter (\<lambda>a. \<not> P a) xs"
  by (rule filter_cong) auto

text \<open>\<^verbatim>\<open>intolerablea\<close> as the source computes it is the list \<^const>\<open>intolerableAllergens\<close>.\<close>

lemma intolerablea_eq:
  "filter (\<lambda>a. a \<notin> set (filter (\<lambda>a. isAllergenTolerable c a tf) (filter (\<lambda>a. a \<in> set al) xs)))
     (filter (\<lambda>a. a \<in> set al) xs)
   = filter (\<lambda>a. a \<in> set al \<and> \<not> isAllergenTolerable c a tf) xs"
  by (subst filter_not_in_filter) simp

subsection \<open>The flag \<^verbatim>\<open>hasIssue\<close>\<close>

lemma checkCompliance_component_snd:
  "snd (checkCompliance_component al af tf c st) = (snd st \<or> componentIssue al af tf c)"
  unfolding checkCompliance_component_def componentIssue_def intolerableAllergens_def forbiddenFlagsOf_def
  by (simp add: Let_def intolerablea_eq) (auto simp: filter_empty_conv)

lemma checkComplianceOnComponents_component_snd:
  "snd (checkComplianceOnComponents_component al af tf c st) = (snd st \<or> componentIssue al af tf c)"
  unfolding checkComplianceOnComponents_component_def componentIssue_def intolerableAllergens_def
    forbiddenFlagsOf_def
  by (simp add: Let_def intolerablea_eq) (auto simp: filter_empty_conv)

lemma fold_checkCompliance_component_snd:
  "snd (fold (checkCompliance_component al af tf) comps st)
     = (snd st \<or> list_ex (componentIssue al af tf) comps)"
  by (induction comps arbitrary: st) (auto simp: checkCompliance_component_snd)

lemma fold_checkComplianceOnComponents_component_snd:
  "snd (fold (checkComplianceOnComponents_component al af tf) comps st)
     = (snd st \<or> list_ex (componentIssue al af tf) comps)"
  by (induction comps arbitrary: st) (auto simp: checkComplianceOnComponents_component_snd)

lemma checkCrossContact_snd:
  "snd (checkCrossContact ccr al cc st)
     = (snd st \<or> (\<not> cc \<and> filter (\<lambda>risk. risk \<in> set al) ccr \<noteq> []))"
  by (auto simp: checkCrossContact_def Let_def)

text \<open>
  Both compliance functions answer the same question: no component has an issue and no
  cross-contact risk is refused.
\<close>

lemma checkCompliance_fst:
  "fst (checkCompliance item al af cc tf rs)
     = (\<not> (list_ex (componentIssue al af tf) (components item)
           \<or> (\<not> cc \<and> filter (\<lambda>risk. risk \<in> set al) (cross_contact_risk item) \<noteq> [])))"
  by (simp add: checkCompliance_def Let_def checkCrossContact_snd fold_checkCompliance_component_snd
        componentIssue_def intolerableAllergens_def forbiddenFlagsOf_def list_ex_iff)

lemma checkComplianceOnComponents_fst:
  "fst (checkComplianceOnComponents comps ccr al af cc tf rs)
     = (\<not> (list_ex (componentIssue al af tf) comps
           \<or> (\<not> cc \<and> filter (\<lambda>risk. risk \<in> set al) ccr \<noteq> [])))"
  by (simp add: checkComplianceOnComponents_def Let_def checkCrossContact_snd
        fold_checkComplianceOnComponents_component_snd
        componentIssue_def intolerableAllergens_def forbiddenFlagsOf_def list_ex_iff)

lemma recheck_unmodified:
  "fst (checkComplianceOnComponents (components item) (cross_contact_risk item) al af cc tf rs)
     = fst (checkCompliance item al af cc tf rs')"
  by (simp only: checkComplianceOnComponents_fst checkCompliance_fst)

lemma flags_issue:
  "set (contains_ingredient_flags c) \<inter> set af \<noteq> {} \<Longrightarrow> forbiddenFlagsOf af c \<noteq> []"
  by (auto simp: forbiddenFlagsOf_def filter_empty_conv)

lemma allergen_issue:
  "\<exists>a \<in> set (contains_allergens c). a \<in> set al \<and> \<not> isAllergenTolerable c a tf
     \<Longrightarrow> intolerableAllergens al tf c \<noteq> []"
  by (auto simp: intolerableAllergens_def filter_empty_conv)

lemma issue_nonempty: "componentIssue al af tf c \<Longrightarrow> \<not> (al = [] \<and> af = [])"
  by (auto simp: componentIssue_def intolerableAllergens_def forbiddenFlagsOf_def)

lemma issue_checkCompliance:
  assumes "c \<in> set (components item)" and "componentIssue al af tf c"
  shows "\<not> fst (checkCompliance item al af cc tf rs)"
  using assms by (auto simp: checkCompliance_fst list_ex_iff)

lemma issue_checkComplianceOnComponents:
  assumes "c \<in> set comps" and "componentIssue al af tf c"
  shows "\<not> fst (checkComplianceOnComponents comps ccr al af cc tf rs)"
  using assms by (auto simp: checkComplianceOnComponents_fst list_ex_iff)

subsection \<open>The reasons\<close>

text \<open>A component without avoided allergens and avoided flags leaves the state as it is.\<close>

lemma checkCompliance_component_clean:
  assumes "set (contains_allergens c) \<inter> set al = {}"
      and "set (contains_ingredient_flags c) \<inter> set af = {}"
  shows "checkCompliance_component al af tf c st = st"
proof -
  have "filter (\<lambda>a. a \<in> set al) (contains_allergens c) = []"
    using assms(1) by (auto simp: filter_empty_conv)
  moreover have "filter (\<lambda>f. f \<in> set af) (contains_ingredient_flags c) = []"
    using assms(2) by (auto simp: filter_empty_conv)
  ultimately show ?thesis
    by (simp add: checkCompliance_component_def)
qed

lemma fold_checkCompliance_component_clean:
  assumes "\<forall>c \<in> set comps. set (contains_allergens c) \<inter> set al = {}
             \<and> set (contains_ingredient_flags c) \<inter> set af = {}"
  shows "fold (checkCompliance_component al af tf) comps st = st"
  using assms by (induction comps arbitrary: st) (simp_all add: checkCompliance_component_clean)

text \<open>A component whose avoided allergens are all tolerable, and that has no avoided flag.\<close>

lemma checkCompliance_component_tolerated:
  assumes "filter (\<lambda>a. a \<in> set al) (contains_allergens c) \<noteq> []"
      and "\<forall>a \<in> set (contains_allergens c). a \<in> set al \<longrightarrow> isAllergenTolerable c a tf"
      and "set (contains_ingredient_flags c) \<inter> set af = {}"
  shows "checkCompliance_component al af tf c (rs, h) = (rs @ [toleratedReason al c], h)"
proof -
  let ?forb = "filter (\<lambda>a. a \<in> set al) (contains_allergens c)"
  have tol: "filter (\<lambda>a. isAllergenTolerable c a tf) ?forb = ?forb"
    using assms(2) by (subst filter_id_conv) auto
  have int: "filter (\<lambda>a. a \<notin> set ?forb) ?forb = []"
    by (auto simp: filter_empty_conv)
  have fl: "filter (\<lambda>f. f \<in> set af) (contains_ingredient_flags c) = []"
    using assms(3) by (auto simp: filter_empty_conv)
  show ?thesis
    unfolding checkCompliance_component_def Let_def tol int fl toleratedReason_def
    using assms(1) by simp
qed

text \<open>Reasons are only ever appended.\<close>

lemma checkCompliance_component_reasons_mono:
  "set (fst st) \<subseteq> set (fst (checkCompliance_component al af tf c st))"
  by (auto simp: checkCompliance_component_def Let_def)

lemma fold_checkCompliance_component_reasons_mono:
  "set (fst st) \<subseteq> set (fst (fold (checkCompliance_component al af tf) comps st))"
proof (induction comps arbitrary: st)
  case Nil
  then show ?case by simp
next
  case (Cons c comps)
  have "set (fst st) \<subseteq> set (fst (checkCompliance_component al af tf c st))"
    by (rule checkCompliance_component_reasons_mono)
  also have "\<dots> \<subseteq> set (fst (fold (checkCompliance_component al af tf) comps
                                (checkCompliance_component al af tf c st)))"
    by (rule Cons.IH)
  finally show ?case by simp
qed

lemma checkComplianceOnComponents_component_reasons_mono:
  "set (fst st) \<subseteq> set (fst (checkComplianceOnComponents_component al af tf c st))"
  by (auto simp: checkComplianceOnComponents_component_def Let_def)

lemma fold_checkComplianceOnComponents_component_reasons_mono:
  "set (fst st) \<subseteq> set (fst (fold (checkComplianceOnComponents_component al af tf) comps st))"
proof (induction comps arbitrary: st)
  case Nil
  then show ?case by simp
next
  case (Cons c comps)
  have "set (fst st) \<subseteq> set (fst (checkComplianceOnComponents_component al af tf c st))"
    by (rule checkComplianceOnComponents_component_reasons_mono)
  also have "\<dots> \<subseteq> set (fst (fold (checkComplianceOnComponents_component al af tf) comps
                                (checkComplianceOnComponents_component al af tf c st)))"
    by (rule Cons.IH)
  finally show ?case by simp
qed

lemma checkCrossContact_reasons_mono:
  "set (fst st) \<subseteq> set (fst (checkCrossContact ccr al cc st))"
  by (auto simp: checkCrossContact_def Let_def)

text \<open>A component with an issue pushes the reason for it, whatever was pushed before.\<close>

lemma checkCompliance_component_flagReason:
  "forbiddenFlagsOf af c \<noteq> [] \<Longrightarrow>
     flagReason af c \<in> set (fst (checkCompliance_component al af tf c st))"
  by (simp add: checkCompliance_component_def Let_def flagReason_def forbiddenFlagsOf_def)

lemma checkCompliance_component_allergenReason:
  "intolerableAllergens al tf c \<noteq> [] \<Longrightarrow>
     allergenReason al tf c \<in> set (fst (checkCompliance_component al af tf c st))"
  unfolding checkCompliance_component_def Let_def allergenReason_def intolerableAllergens_def
    intolerablea_eq
  by (auto simp: filter_empty_conv)

lemma checkComplianceOnComponents_component_flagReason:
  "forbiddenFlagsOf af c \<noteq> [] \<Longrightarrow>
     flagReason af c \<in> set (fst (checkComplianceOnComponents_component al af tf c st))"
  by (simp add: checkComplianceOnComponents_component_def Let_def flagReason_def forbiddenFlagsOf_def)

lemma checkComplianceOnComponents_component_allergenReason:
  "intolerableAllergens al tf c \<noteq> [] \<Longrightarrow>
     allergenReason al tf c \<in> set (fst (checkComplianceOnComponents_component al af tf c st))"
  unfolding checkComplianceOnComponents_component_def Let_def allergenReason_def
    intolerableAllergens_def intolerablea_eq
  by (auto simp: filter_empty_conv)

lemma fold_checkCompliance_component_reason:
  assumes "c \<in> set comps" and "\<And>st. r \<in> set (fst (checkCompliance_component al af tf c st))"
  shows "r \<in> set (fst (fold (checkCompliance_component al af tf) comps st))"
  using assms(1)
proof (induction comps arbitrary: st)
  case Nil
  then show ?case by simp
next
  case (Cons d comps)
  show ?case
  proof (cases "c = d")
    case True
    have "r \<in> set (fst (checkCompliance_component al af tf d st))"
      using assms(2) True by simp
    then show ?thesis
      using fold_checkCompliance_component_reasons_mono
        [of "checkCompliance_component al af tf d st" al af tf comps]
      by auto
  next
    case False
    with Cons.prems have "c \<in> set comps" by simp
    then show ?thesis using Cons.IH by simp
  qed
qed

lemma fold_checkComplianceOnComponents_component_reason:
  assumes "c \<in> set comps"
      and "\<And>st. r \<in> set (fst (checkComplianceOnComponents_component al af tf c st))"
  shows "r \<in> set (fst (fold (checkComplianceOnComponents_component al af tf) comps st))"
  using assms(1)
proof (induction comps arbitrary: st)
  case Nil
  then show ?case by simp
next
  case (Cons d comps)
  show ?case
  proof (cases "c = d")
    case True
    have "r \<in> set (fst (checkComplianceOnComponents_component al af tf d st))"
      using assms(2) True by simp
    then show ?thesis
      using fold_checkComplianceOnComponents_component_reasons_mono
        [of "checkComplianceOnComponents_component al af tf d st" al af tf comps]
      by auto
  next
    case False
    with Cons.prems have "c \<in> set comps" by simp
    then show ?thesis using Cons.IH by simp
  qed
qed

lemma reason_checkCompliance:
  assumes "c \<in> set (components item)" and "componentIssue al af tf c"
      and "\<And>st. r \<in> set (fst (checkCompliance_component al af tf c st))"
  shows "r \<in> set (snd (checkCompliance item al af cc tf rs))"
proof -
  let ?st = "fold (checkCompliance_component al af tf) (components item) (rs, False)"
  have "r \<in> set (fst ?st)"
    using assms(1,3) by (rule fold_checkCompliance_component_reason)
  then have "r \<in> set (fst (checkCrossContact (cross_contact_risk item) al cc ?st))"
    using checkCrossContact_reasons_mono by blast
  then show ?thesis
    using issue_nonempty [OF assms(2)] by (auto simp: checkCompliance_def Let_def)
qed

lemma reason_checkComplianceOnComponents:
  assumes "c \<in> set comps" and "componentIssue al af tf c"
      and "\<And>st. r \<in> set (fst (checkComplianceOnComponents_component al af tf c st))"
  shows "r \<in> set (snd (checkComplianceOnComponents comps ccr al af cc tf rs))"
proof -
  let ?st = "fold (checkComplianceOnComponents_component al af tf) comps (rs, False)"
  have "r \<in> set (fst ?st)"
    using assms(1,3) by (rule fold_checkComplianceOnComponents_component_reason)
  then have "r \<in> set (fst (checkCrossContact ccr al cc ?st))"
    using checkCrossContact_reasons_mono by blast
  then show ?thesis
    using issue_nonempty [OF assms(2)] by (auto simp: checkComplianceOnComponents_def Let_def)
qed

section \<open>Tolerability and the relation table\<close>

lemma isRelatedToAllergen_iff:
  "isRelatedToAllergen f a =
     (a = ''sesame'' \<and> (f = ''sesame_seed'' \<or> f = ''sesame_oil'')
      \<or> a = ''gluten'' \<and> f = ''soy_sauce''
      \<or> a = ''shellfish'' \<and> f = ''oyster_sauce''
      \<or> a = ''peanut'' \<and> f = ''peanut_oil'')"
  by (simp add: isRelatedToAllergen_def relations_def)

lemma isAllergenTolerable_iff:
  "isAllergenTolerable c a tf =
     (\<exists>f \<in> set tf. f \<in> set (contains_ingredient_flags c) \<and> isRelatedToAllergen f a)"
  by (auto simp: isAllergenTolerable_def list_ex_iff)

section \<open>Modifications\<close>

lemma isApplicable_iff:
  "isApplicable al af m
     = (case mod_when m of None \<Rightarrow> False
        | Some w \<Rightarrow> set (avoid_allergens w) \<inter> set al \<noteq> {}
                  \<or> set (avoid_ingredient_flags w) \<inter> set af \<noteq> {})"
  by (auto simp: isApplicable_def list_ex_iff split: option.splits)

text \<open>
  For an item that is not compliant, the resolver's answer is the re-check of the
  effective components: with no applicable modification the effective components are the
  item's own, and their re-check fails as the first check did.
\<close>

lemma canModificationsMakeItemSafe_iff:
  assumes "\<not> fst (checkCompliance item al af cc tf rs)"
  shows "canModificationsMakeItemSafe item al af cc tf
     = fst (checkComplianceOnComponents
              (fold (\<lambda>m effective. applyModification effective m)
                 (filter (isApplicable al af) (item_modifications item)) (components item))
              (cross_contact_risk item) al af cc tf [])"
proof (cases "filter (isApplicable al af) (item_modifications item) = []")
  case True
  have "\<not> fst (checkComplianceOnComponents (components item) (cross_contact_risk item) al af cc tf [])"
    using assms by (simp add: recheck_unmodified [of item al af cc tf "[]" rs])
  with True show ?thesis
    by (simp add: canModificationsMakeItemSafe_def)
next
  case False
  then have "item_modifications item \<noteq> []" by auto
  with False show ?thesis
    by (simp add: canModificationsMakeItemSafe_def)
qed

section \<open>The loop over the catalog\<close>

lemma initialStatus_no_reasons: "(initialStatus item)\<lparr>reasons := []\<rparr> = initialStatus item"
  by (simp add: initialStatus_def)

lemma not_compliant_not_safe:
  "\<not> fst (checkCompliance item al af cc tf (snd (checkDietaryCompliance item dp [])))
     \<Longrightarrow> safe (filterItem dp al af cc tf item res) = safe res"
  by (simp add: filterItem_def Let_def)

lemma fold_filterItem_empty:
  "fold (filterItem [] [] [] False []) menu res = res\<lparr>safe := safe res @ map initialStatus menu\<rparr>"
proof (induction menu arbitrary: res)
  case Nil
  then show ?case by simp
next
  case (Cons item menu)
  have "filterItem [] [] [] False [] item res = res\<lparr>safe := safe res @ [initialStatus item]\<rparr>"
    by (simp add: filterItem_def checkDietaryCompliance_def checkCompliance_def initialStatus_def)
  then show ?case using Cons by simp
qed

lemma bucket_ids_filterItem:
  "mset (bucket_ids (filterItem dp al af cc tf item res))
     = add_mset (item_id item) (mset (bucket_ids res))"
  by (simp add: filterItem_def bucket_ids_def initialStatus_def Let_def)

lemma bucket_ids_fold_filterItem:
  "mset (bucket_ids (fold (filterItem dp al af cc tf) menu res))
     = mset (map item_id menu) + mset (bucket_ids res)"
  by (induction menu arbitrary: res) (simp_all add: bucket_ids_filterItem)

lemma bucket_ids_filterByDietaryAndAllergies:
  "mset (bucket_ids (filterByDietaryAndAllergies menu dp al af cc tf)) = mset (map item_id menu)"
proof -
  have "bucket_ids emptyResults = []"
    by (simp add: bucket_ids_def emptyResults_def)
  then show ?thesis
    by (simp add: filterByDietaryAndAllergies_def bucket_ids_fold_filterItem)
qed

section \<open>The tolerance refiner\<close>

lemma bucket_ids_refineItem:
  "mset (bucket_ids (refineItem menu al tol st res)) = add_mset (status_id st) (mset (bucket_ids res))"
  by (simp add: refineItem_def bucket_ids_def Let_def split: option.splits)

lemma bucket_ids_fold_refineItem:
  "mset (bucket_ids (fold (refineItem menu al tol) sts res))
     = mset (map status_id sts) + mset (bucket_ids res)"
  by (induction sts arbitrary: res) (simp_all add: bucket_ids_refineItem)

lemma bucket_ids_filterByTolerance:
  "mset (bucket_ids (filterByTolerance menu layer1 al tol)) = mset (bucket_ids layer1)"
proof (cases "tol = []")
  case True
  then show ?thesis by (simp add: filterByTolerance_def)
next
  case False
  let ?start = "\<lparr>safe = safe layer1, filtered = [], canBeModified = canBeModified layer1\<rparr>"
  have "mset (map status_id (filtered layer1)) + mset (bucket_ids ?start) = mset (bucket_ids layer1)"
    by (simp add: bucket_ids_def)
  with False show ?thesis
    by (simp add: filterByTolerance_def bucket_ids_fold_refineItem)
qed

text \<open>
  The refiner leaves the bucket canBeModified as it is and only appends to the bucket
  safe.
\<close>

lemma refineItem_passes_through:
  "canBeModified (refineItem menu al tol st res) = canBeModified res
   \<and> (\<exists>promoted. safe (refineItem menu al tol st res) = safe res @ promoted)"
  by (simp add: refineItem_def Let_def split: option.splits)

lemma fold_refineItem_passes_through:
  "canBeModified (fold (refineItem menu al tol) sts res) = canBeModified res
   \<and> (\<exists>promoted. safe (fold (refineItem menu al tol) sts res) = safe res @ promoted)"
proof (induction sts arbitrary: res)
  case Nil
  then show ?case by simp
next
  case (Cons st sts)
  obtain p where p: "safe (refineItem menu al tol st res) = safe res @ p"
    using refineItem_passes_through by blast
  obtain q where q: "safe (fold (refineItem menu al tol) sts (refineItem menu al tol st res))
      = safe (refineItem menu al tol st res) @ q"
    using Cons.IH by blast
  have "safe (fold (refineItem menu al tol) (st # sts) res) = safe res @ (p @ q)"
    using p q by simp
  then show ?case
    using Cons.IH [of "refineItem menu al tol st res"] refineItem_passes_through [of menu al tol st res]
    by auto
qed

lemma filterByTolerance_passes_through:
  "canBeModified (filterByTolerance menu layer1 al tol) = canBeModified layer1
   \<and> (\<exists>promoted. safe (filterByTolerance menu layer1 al tol) = safe layer1 @ promoted)"
  using fold_refineItem_passes_through
    [of menu al tol "filtered layer1"
        "\<lparr>safe = safe layer1, filtered = [], canBeModified = canBeModified layer1\<rparr>"]
  by (auto simp: filterByTolerance_def)

section \<open>The report\<close>

lemma fold_safeByAllergy:
  "fold (\<lambda>allergen rep. rep\<lparr>safeByAllergy := (safeByAllergy rep)(allergen \<mapsto> g allergen)\<rparr>) al rep
     = rep\<lparr>safeByAllergy := (\<lambda>a. if a \<in> set al then Some (g a) else safeByAllergy rep a)\<rparr>"
proof (induction al arbitrary: rep)
  case Nil
  then show ?case by simp
next
  case (Cons x al)
  let ?f = "\<lambda>allergen rep. rep\<lparr>safeByAllergy := (safeByAllergy rep)(allergen \<mapsto> g allergen)\<rparr>"
  have "fold ?f (x # al) rep = fold ?f al (?f x rep)"
    by simp
  also have "\<dots> = (?f x rep)\<lparr>safeByAllergy :=
      (\<lambda>a. if a \<in> set al then Some (g a) else safeByAllergy (?f x rep) a)\<rparr>"
    by (rule Cons.IH)
  also have "\<dots> = rep\<lparr>safeByAllergy :=
      (\<lambda>a. if a \<in> set (x # al) then Some (g a) else safeByAllergy rep a)\<rparr>"
  proof -
    have "(\<lambda>a. if a \<in> set al then Some (g a) else safeByAllergy (?f x rep) a)
        = (\<lambda>a. if a \<in> set (x # al) then Some (g a) else safeByAllergy rep a)"
      by (auto simp: fun_eq_iff)
    then show ?thesis by simp
  qed
  finally show ?case .
qed

section \<open>The claims\<close>

subsection \<open>C1: what the tolerance refiner promotes\<close>

text \<open>
  Claim C1: the tolerance refiner promotes an item from filtered to safe only if every
  avoided allergen present in the item appears solely via its designated tolerated form and
  the item had no other blocking issue; it never moves an item out of safe or
  canBeModified.

  The second half holds (\<open>filterByTolerance_passes_through\<close>). The first half fails on
  the code: the loop over the avoided allergens skips every allergen without an affirmative
  tolerance and never looks at why the item was filtered. The catalog item below has gluten
  in its noodles, with no soy sauce, and sesame in a dressing made with sesame oil. The
  diner avoids gluten and sesame and tolerates sesame oil only. The first pass filters the
  item for both allergens; the refiner moves it to safe.
\<close>

theorem refiner_promotes_item_with_untolerated_allergen:
  "filterByDietaryAndAllergies [wheat_noodles] [] [''gluten'', ''sesame''] [] False []
     = \<lparr>safe = [],
        filtered =
          [\<lparr>status_id = ''m3'', status_name = ''Wheat noodles'', status_category = ''mains'',
            reasons = [quoted ''noodles'' @ '' contains intolerable allergen(s): gluten'',
                       quoted ''dressing'' @ '' contains intolerable allergen(s): sesame''],
            modifications = None, tolerance_notes = None, toleranceAllowed = False\<rparr>],
        canBeModified = []\<rparr>
   \<and> filterByTolerance [wheat_noodles]
       (filterByDietaryAndAllergies [wheat_noodles] [] [''gluten'', ''sesame''] [] False [])
       [''gluten'', ''sesame''] sesameTolerance
     = \<lparr>safe =
          [\<lparr>status_id = ''m3'', status_name = ''Wheat noodles'', status_category = ''mains'',
            reasons = [quoted ''noodles'' @ '' contains intolerable allergen(s): gluten'',
                       quoted ''dressing'' @ '' contains intolerable allergen(s): sesame''],
            modifications = None,
            tolerance_notes = Some [''Can tolerate sesame in form: sesame_oil''],
            toleranceAllowed = True\<rparr>],
        filtered = [], canBeModified = []\<rparr>
   \<and> ''gluten'' \<in> set (contains_allergens noodles)
   \<and> \<not> checkIfOnlyTolerablyPresent wheat_noodles ''gluten'' ''soy_sauce''"
  by (simp add: demo_defs engine_defs refiner_defs)

subsection \<open>C2: category trichotomy\<close>

text \<open>
  Claim C2: every evaluated menu item is placed in exactly one of the three buckets safe,
  canBeModified and filtered, after the first pass and after the tolerance refinement.

  The identifiers of the verdicts in the three buckets, counted with their multiplicity,
  are the identifiers of the catalog items: each item has one verdict, in one bucket. For
  a catalog without repeated identifiers no identifier occurs twice in the buckets. The
  refiner may be given any allergen list and any tolerance declaration.
\<close>

theorem category_trichotomy:
  "mset (bucket_ids (filterByDietaryAndAllergies menu dp al af cc tf)) = mset (map item_id menu)
   \<and> mset (bucket_ids (filterByTolerance menu (filterByDietaryAndAllergies menu dp al af cc tf) al' tol))
       = mset (map item_id menu)
   \<and> (distinct (map item_id menu) \<longrightarrow>
        distinct (bucket_ids (filterByDietaryAndAllergies menu dp al af cc tf))
        \<and> distinct (bucket_ids
             (filterByTolerance menu (filterByDietaryAndAllergies menu dp al af cc tf) al' tol)))"
proof -
  let ?r = "filterByDietaryAndAllergies menu dp al af cc tf"
  let ?r' = "filterByTolerance menu ?r al' tol"
  have 1: "mset (bucket_ids ?r) = mset (map item_id menu)"
    by (rule bucket_ids_filterByDietaryAndAllergies)
  have 2: "mset (bucket_ids ?r') = mset (map item_id menu)"
    by (simp add: bucket_ids_filterByTolerance 1)
  have "distinct (bucket_ids ?r)" "distinct (bucket_ids ?r')" if "distinct (map item_id menu)"
    using that 1 2 by (metis mset_eq_imp_distinct_iff)+
  with 1 2 show ?thesis by blast
qed

theorem category_trichotomy_witness:
  "distinct (map item_id demo_menu)
   \<and> distinct (bucket_ids (filterByDietaryAndAllergies demo_menu [] [''gluten''] [] False []))
   \<and> mset (bucket_ids (filterByTolerance demo_menu
         (filterByDietaryAndAllergies demo_menu [] [''gluten''] [] False []) [''gluten'']
         [(''gluten'', [(''canUseSoySauce'', True)])])) = mset [''m1'', ''m2'', ''m3'']
   \<and> map status_id (safe (filterByDietaryAndAllergies demo_menu [] [''gluten''] [] False []))
       = [''m1'']
   \<and> map status_id (canBeModified (filterByDietaryAndAllergies demo_menu [] [''gluten''] [] False []))
       = [''m2'']
   \<and> map status_id (filtered (filterByDietaryAndAllergies demo_menu [] [''gluten''] [] False []))
       = [''m3'']"
proof -
  have d: "distinct (map item_id demo_menu)"
    by (simp add: demo_defs)
  have m: "map item_id demo_menu = [''m1'', ''m2'', ''m3'']"
    by (simp add: demo_defs)
  have e: "map status_id (safe (filterByDietaryAndAllergies demo_menu [] [''gluten''] [] False []))
       = [''m1'']
   \<and> map status_id (canBeModified (filterByDietaryAndAllergies demo_menu [] [''gluten''] [] False []))
       = [''m2'']
   \<and> map status_id (filtered (filterByDietaryAndAllergies demo_menu [] [''gluten''] [] False []))
       = [''m3'']"
    by (simp add: demo_defs engine_defs)
  show ?thesis
    using d m e category_trichotomy [of demo_menu "[]" "[''gluten'']" "[]" False "[]"
        "[''gluten'']" "[(''gluten'', [(''canUseSoySauce'', True)])]"]
    by simp
qed

subsection \<open>C3: dietary failure and modifications\<close>

text \<open>
  Claim C3: an item that fails the dietary check is never categorized as canBeModified,
  even when its declared modifications would clear its allergen issues.

  The code does not do this. The loop body asks for the dietary result only on the way to
  the bucket safe; the branch for canBeModified tests \<^verbatim>\<open>canBeModifiedToSafe\<close> alone. The
  item below carries no vegan tag, has gluten in its glaze and a modification that removes
  the glaze: for a vegan diner who avoids gluten it lands in canBeModified, with the vegan
  reason among its reasons.
\<close>

theorem dietary_failure_lands_in_canBeModified:
  "\<not> fst (checkDietaryCompliance glazed_chicken [''vegan''] [])
   \<and> filterByDietaryAndAllergies [glazed_chicken] [''vegan''] [''gluten''] [] False []
     = \<lparr>safe = [], filtered = [],
        canBeModified =
          [\<lparr>status_id = ''m2'', status_name = ''Glazed chicken'', status_category = ''mains'',
            reasons = [''Contains dairy, eggs or animal products - not vegan'',
                       quoted ''soy glaze'' @ '' contains intolerable allergen(s): gluten''],
            modifications = Some [remove_glaze],
            tolerance_notes = None, toleranceAllowed = False\<rparr>]\<rparr>"
  by (simp add: demo_defs engine_defs)

subsection \<open>C4: the multi-allergy report\<close>

text \<open>
  Claim C4, as amended: the report of \<^verbatim>\<open>runMultiAllergyReport\<close> holds the safe list of the
  combined pass (\<^verbatim>\<open>safeForAll\<close>) and a mapping from each avoided allergen to the items safe
  when only that allergen is avoided, the other settings of the profile unchanged
  (\<^verbatim>\<open>safeByAllergy\<close>); an absent field of the profile takes its default.

  The claim as written also puts the lists canBeModified and filtered of the combined pass
  in the report and runs the tolerance refiner over the combined result. The report has
  neither list, and the report builder never calls the refiner.
\<close>

theorem report_composition:
  "safeForAll (runMultiAllergyReport menu p)
     = safe (filterByDietaryAndAllergies menu
               (orDefault (dietaryPreferences p) []) (orDefault (avoidAllergens p) [])
               (orDefault (avoidIngredientFlags p) []) (orDefault (crossContactOk p) False)
               (orDefault (tolerateFlags p) []))
   \<and> safeByAllergy (runMultiAllergyReport menu p) a
     = (if a \<in> set (orDefault (avoidAllergens p) [])
        then Some (safe (filterByDietaryAndAllergies menu
               (orDefault (dietaryPreferences p) []) [a]
               (orDefault (avoidIngredientFlags p) []) (orDefault (crossContactOk p) False)
               (orDefault (tolerateFlags p) [])))
        else None)"
  by (simp add: runMultiAllergyReport_def Let_def fold_safeByAllergy)

theorem report_composition_witness:
  "safeForAll (runMultiAllergyReport demo_menu glutenProfile) = [initialStatus steamed_rice]
   \<and> safeByAllergy (runMultiAllergyReport demo_menu glutenProfile) ''gluten''
       = Some [initialStatus steamed_rice]
   \<and> safeByAllergy (runMultiAllergyReport demo_menu glutenProfile) ''sesame'' = None"
  using report_composition [of demo_menu glutenProfile "''gluten''"]
    report_composition [of demo_menu glutenProfile "''sesame''"]
  by (simp add: demo_defs engine_defs orDefault_def)

text \<open>
  Two catalogs whose combined passes differ in the buckets filtered and canBeModified
  have the same report; and for a diner who avoids sesame and tolerates sesame oil, the
  safe list of the report is not the safe list the refiner would return.
\<close>

theorem report_omits_lists_and_refiner:
  "runMultiAllergyReport [wheat_noodles] glutenProfile = runMultiAllergyReport [glazed_chicken] glutenProfile
   \<and> filtered (filterByDietaryAndAllergies [wheat_noodles] [] [''gluten''] [] False [])
       \<noteq> filtered (filterByDietaryAndAllergies [glazed_chicken] [] [''gluten''] [] False [])
   \<and> canBeModified (filterByDietaryAndAllergies [wheat_noodles] [] [''gluten''] [] False [])
       \<noteq> canBeModified (filterByDietaryAndAllergies [glazed_chicken] [] [''gluten''] [] False [])
   \<and> safeForAll (runMultiAllergyReport [wheat_noodles] sesameProfile)
       \<noteq> safe (filterByTolerance [wheat_noodles]
                 (filterByDietaryAndAllergies [wheat_noodles] [] [''sesame''] [] False [])
                 [''sesame''] sesameTolerance)"
  by (simp add: demo_defs engine_defs refiner_defs runMultiAllergyReport_def orDefault_def)

subsection \<open>C5: tolerability in the first pass\<close>

text \<open>
  Claim C5: in the compliance check an avoided allergen of a component is tolerable if
  and only if the diner tolerates a flag that the component declares and that is a related
  form of the allergen under the fixed table (sesame: sesame_seed, sesame_oil; gluten:
  soy_sauce; shellfish: oyster_sauce; peanut: peanut_oil). An allergen that is not
  tolerable sets the issue flag and pushes a reason that names the component; when all
  avoided allergens of the component are tolerable an informational reason is pushed and the
  issue flag stays as it was. A one-component item with the allergen sesame and the only
  flag sesame_oil, without modifications, is filtered for a diner who avoids sesame and
  tolerates nothing, and safe with the tolerated-form reason once the diner tolerates
  sesame_oil.
\<close>

theorem first_pass_tolerability:
  "isAllergenTolerable c a tf =
     (\<exists>f \<in> set tf. f \<in> set (contains_ingredient_flags c)
        \<and> (a = ''sesame'' \<and> (f = ''sesame_seed'' \<or> f = ''sesame_oil'')
           \<or> a = ''gluten'' \<and> f = ''soy_sauce''
           \<or> a = ''shellfish'' \<and> f = ''oyster_sauce''
           \<or> a = ''peanut'' \<and> f = ''peanut_oil''))
   \<and> ((\<exists>a \<in> set (contains_allergens c). a \<in> set al \<and> \<not> isAllergenTolerable c a tf) \<longrightarrow>
         snd (checkCompliance_component al af tf c (rs, h))
         \<and> allergenReason al tf c \<in> set (fst (checkCompliance_component al af tf c (rs, h))))
   \<and> ((\<exists>a \<in> set (contains_allergens c). a \<in> set al)
        \<and> (\<forall>a \<in> set (contains_allergens c). a \<in> set al \<longrightarrow> isAllergenTolerable c a tf)
        \<and> set (contains_ingredient_flags c) \<inter> set af = {} \<longrightarrow>
         checkCompliance_component al af tf c (rs, h) = (rs @ [toleratedReason al c], h))
   \<and> filterByDietaryAndAllergies [oneComponentItem i n k tg (sesameOilComponent cn nt)]
         [] [''sesame''] [] cc []
       = \<lparr>safe = [],
          filtered = [\<lparr>status_id = i, status_name = n, status_category = k,
                       reasons = [quoted cn @ '' contains intolerable allergen(s): sesame''],
                       modifications = None, tolerance_notes = None, toleranceAllowed = False\<rparr>],
          canBeModified = []\<rparr>
   \<and> filterByDietaryAndAllergies [oneComponentItem i n k tg (sesameOilComponent cn nt)]
         [] [''sesame''] [] cc [''sesame_oil'']
       = \<lparr>safe = [\<lparr>status_id = i, status_name = n, status_category = k,
                   reasons = [quoted cn @ '' contains tolerated form: sesame''],
                   modifications = None, tolerance_notes = None, toleranceAllowed = False\<rparr>],
          filtered = [], canBeModified = []\<rparr>"
proof (intro conjI impI)
  show "isAllergenTolerable c a tf =
     (\<exists>f \<in> set tf. f \<in> set (contains_ingredient_flags c)
        \<and> (a = ''sesame'' \<and> (f = ''sesame_seed'' \<or> f = ''sesame_oil'')
           \<or> a = ''gluten'' \<and> f = ''soy_sauce''
           \<or> a = ''shellfish'' \<and> f = ''oyster_sauce''
           \<or> a = ''peanut'' \<and> f = ''peanut_oil''))"
    by (simp only: isAllergenTolerable_iff isRelatedToAllergen_iff)
next
  assume a: "\<exists>a \<in> set (contains_allergens c). a \<in> set al \<and> \<not> isAllergenTolerable c a tf"
  then have "componentIssue al af tf c"
    using allergen_issue [OF a] by (simp add: componentIssue_def)
  then show "snd (checkCompliance_component al af tf c (rs, h))"
    by (simp add: checkCompliance_component_snd)
  show "allergenReason al tf c \<in> set (fst (checkCompliance_component al af tf c (rs, h)))"
    using allergen_issue [OF a] by (rule checkCompliance_component_allergenReason)
next
  assume t: "(\<exists>a \<in> set (contains_allergens c). a \<in> set al)
        \<and> (\<forall>a \<in> set (contains_allergens c). a \<in> set al \<longrightarrow> isAllergenTolerable c a tf)
        \<and> set (contains_ingredient_flags c) \<inter> set af = {}"
  then have "filter (\<lambda>a. a \<in> set al) (contains_allergens c) \<noteq> []"
    by (auto simp: filter_empty_conv)
  with t show "checkCompliance_component al af tf c (rs, h) = (rs @ [toleratedReason al c], h)"
    by (intro checkCompliance_component_tolerated) auto
next
  show "filterByDietaryAndAllergies [oneComponentItem i n k tg (sesameOilComponent cn nt)]
         [] [''sesame''] [] cc []
       = \<lparr>safe = [],
          filtered = [\<lparr>status_id = i, status_name = n, status_category = k,
                       reasons = [quoted cn @ '' contains intolerable allergen(s): sesame''],
                       modifications = None, tolerance_notes = None, toleranceAllowed = False\<rparr>],
          canBeModified = []\<rparr>"
    by (simp add: oneComponentItem_def sesameOilComponent_def engine_defs)
next
  show "filterByDietaryAndAllergies [oneComponentItem i n k tg (sesameOilComponent cn nt)]
         [] [''sesame''] [] cc [''sesame_oil'']
       = \<lparr>safe = [\<lparr>status_id = i, status_name = n, status_category = k,
                   reasons = [quoted cn @ '' contains tolerated form: sesame''],
                   modifications = None, tolerance_notes = None, toleranceAllowed = False\<rparr>],
          filtered = [], canBeModified = []\<rparr>"
    by (simp add: oneComponentItem_def sesameOilComponent_def engine_defs)
qed

theorem first_pass_tolerability_witness:
  "isAllergenTolerable dressing ''sesame'' [''soy_sauce'', ''sesame_oil'']
   \<and> \<not> isAllergenTolerable dressing ''sesame'' [''soy_sauce'']
   \<and> \<not> isAllergenTolerable sesame_topping ''sesame'' [''sesame_oil'']
   \<and> checkCompliance_component [''sesame''] [] [''soy_sauce''] dressing ([], False)
       = ([quoted ''dressing'' @ '' contains intolerable allergen(s): sesame''], True)
   \<and> checkCompliance_component [''sesame''] [] [''sesame_oil''] dressing ([], False)
       = ([quoted ''dressing'' @ '' contains tolerated form: sesame''], False)"
proof -
  have 1: "isAllergenTolerable dressing ''sesame'' [''soy_sauce'', ''sesame_oil'']"
    using first_pass_tolerability [of dressing "''sesame''" "[''soy_sauce'', ''sesame_oil'']"]
    by (simp add: dressing_def)
  have 2: "\<not> isAllergenTolerable dressing ''sesame'' [''soy_sauce'']"
    using first_pass_tolerability [of dressing "''sesame''" "[''soy_sauce'']"]
    by (simp add: dressing_def)
  have 3: "\<not> isAllergenTolerable sesame_topping ''sesame'' [''sesame_oil'']"
    using first_pass_tolerability [of sesame_topping "''sesame''" "[''sesame_oil'']"]
    by (simp add: sesame_topping_def)
  have 4: "checkCompliance_component [''sesame''] [] [''soy_sauce''] dressing ([], False)
       = ([quoted ''dressing'' @ '' contains intolerable allergen(s): sesame''], True)"
    by (simp add: demo_defs engine_defs)
  have t: "isAllergenTolerable dressing ''sesame'' [''sesame_oil'']"
    by (simp add: dressing_def isAllergenTolerable_def isRelatedToAllergen_def relations_def)
  have 5: "checkCompliance_component [''sesame''] [] [''sesame_oil''] dressing ([], False)
       = ([quoted ''dressing'' @ '' contains tolerated form: sesame''], False)"
    using t first_pass_tolerability [of dressing "''sesame''" "[''sesame_oil'']" "[''sesame'']" "[]" "[]" False]
    by (simp add: dressing_def toleratedReason_def)
  from 1 2 3 4 5 show ?thesis by simp
qed

subsection \<open>C6: no silent drop\<close>

text \<open>
  Claim C6: a component with an avoided flag forces rejection with a reason that names
  the component, whatever the diner tolerates; and every avoided allergen of a component
  that is not tolerable there does the same. This holds for the check of the item as
  served and for the re-check of a component list after modifications; the item is then
  not pushed onto the bucket safe.
\<close>

theorem no_silent_drop:
  "(c \<in> set (components item) \<and> set (contains_ingredient_flags c) \<inter> set af \<noteq> {} \<longrightarrow>
       \<not> fst (checkCompliance item al af cc tf rs)
       \<and> flagReason af c \<in> set (snd (checkCompliance item al af cc tf rs))
       \<and> safe (filterItem dp al af cc tf item res) = safe res)
   \<and> (c \<in> set (components item)
        \<and> (\<exists>a \<in> set (contains_allergens c). a \<in> set al \<and> \<not> isAllergenTolerable c a tf) \<longrightarrow>
       \<not> fst (checkCompliance item al af cc tf rs)
       \<and> allergenReason al tf c \<in> set (snd (checkCompliance item al af cc tf rs))
       \<and> safe (filterItem dp al af cc tf item res) = safe res)
   \<and> (c \<in> set comps \<and> set (contains_ingredient_flags c) \<inter> set af \<noteq> {} \<longrightarrow>
       \<not> fst (checkComplianceOnComponents comps ccr al af cc tf rs)
       \<and> flagReason af c \<in> set (snd (checkComplianceOnComponents comps ccr al af cc tf rs)))
   \<and> (c \<in> set comps
        \<and> (\<exists>a \<in> set (contains_allergens c). a \<in> set al \<and> \<not> isAllergenTolerable c a tf) \<longrightarrow>
       \<not> fst (checkComplianceOnComponents comps ccr al af cc tf rs)
       \<and> allergenReason al tf c \<in> set (snd (checkComplianceOnComponents comps ccr al af cc tf rs)))"
proof (intro conjI impI; elim conjE)
  assume c: "c \<in> set (components item)" and f: "set (contains_ingredient_flags c) \<inter> set af \<noteq> {}"
  have i: "componentIssue al af tf c"
    using flags_issue [OF f] by (simp add: componentIssue_def)
  show "\<not> fst (checkCompliance item al af cc tf rs)"
    using c i by (rule issue_checkCompliance)
  show "flagReason af c \<in> set (snd (checkCompliance item al af cc tf rs))"
    using c i checkCompliance_component_flagReason [OF flags_issue [OF f]]
    by (rule reason_checkCompliance)
  show "safe (filterItem dp al af cc tf item res) = safe res"
    using issue_checkCompliance [OF c i] by (rule not_compliant_not_safe)
next
  assume c: "c \<in> set (components item)"
    and a: "\<exists>a \<in> set (contains_allergens c). a \<in> set al \<and> \<not> isAllergenTolerable c a tf"
  have i: "componentIssue al af tf c"
    using allergen_issue [OF a] by (simp add: componentIssue_def)
  show "\<not> fst (checkCompliance item al af cc tf rs)"
    using c i by (rule issue_checkCompliance)
  show "allergenReason al tf c \<in> set (snd (checkCompliance item al af cc tf rs))"
    using c i checkCompliance_component_allergenReason [OF allergen_issue [OF a]]
    by (rule reason_checkCompliance)
  show "safe (filterItem dp al af cc tf item res) = safe res"
    using issue_checkCompliance [OF c i] by (rule not_compliant_not_safe)
next
  assume c: "c \<in> set comps" and f: "set (contains_ingredient_flags c) \<inter> set af \<noteq> {}"
  have i: "componentIssue al af tf c"
    using flags_issue [OF f] by (simp add: componentIssue_def)
  show "\<not> fst (checkComplianceOnComponents comps ccr al af cc tf rs)"
    using c i by (rule issue_checkComplianceOnComponents)
  show "flagReason af c \<in> set (snd (checkComplianceOnComponents comps ccr al af cc tf rs))"
    using c i checkComplianceOnComponents_component_flagReason [OF flags_issue [OF f]]
    by (rule reason_checkComplianceOnComponents)
next
  assume c: "c \<in> set comps"
    and a: "\<exists>a \<in> set (contains_allergens c). a \<in> set al \<and> \<not> isAllergenTolerable c a tf"
  have i: "componentIssue al af tf c"
    using allergen_issue [OF a] by (simp add: componentIssue_def)
  show "\<not> fst (checkComplianceOnComponents comps ccr al af cc tf rs)"
    using c i by (rule issue_checkComplianceOnComponents)
  show "allergenReason al tf c \<in> set (snd (checkComplianceOnComponents comps ccr al af cc tf rs))"
    using c i checkComplianceOnComponents_component_allergenReason [OF allergen_issue [OF a]]
    by (rule reason_checkComplianceOnComponents)
qed

text \<open>
  The dressing declares the flag sesame_oil, which the diner both avoids and tolerates:
  the item is rejected for the flag. The noodles hold gluten, which sesame_oil does not
  make tolerable: the item is rejected for the allergen.
\<close>

theorem no_silent_drop_witness:
  "dressing \<in> set (components wheat_noodles)
   \<and> set (contains_ingredient_flags dressing) \<inter> set [''sesame_oil''] \<noteq> {}
   \<and> isAllergenTolerable dressing ''sesame'' [''sesame_oil'']
   \<and> \<not> fst (checkCompliance wheat_noodles [''sesame''] [''sesame_oil''] False [''sesame_oil''] [])
   \<and> quoted ''dressing'' @ '' contains ingredient flag(s): sesame_oil''
       \<in> set (snd (checkCompliance wheat_noodles [''sesame''] [''sesame_oil''] False [''sesame_oil''] []))
   \<and> noodles \<in> set (components wheat_noodles)
   \<and> \<not> isAllergenTolerable noodles ''gluten'' [''sesame_oil'']
   \<and> quoted ''noodles'' @ '' contains intolerable allergen(s): gluten''
       \<in> set (snd (checkCompliance wheat_noodles [''gluten''] [] False [''sesame_oil''] []))
   \<and> safe (filterItem [] [''gluten''] [] False [''sesame_oil''] wheat_noodles emptyResults) = []"
proof -
  have c: "dressing \<in> set (components wheat_noodles)"
    by (simp add: wheat_noodles_def)
  have f: "set (contains_ingredient_flags dressing) \<inter> set [''sesame_oil''] \<noteq> {}"
    by (simp add: dressing_def)
  have t: "isAllergenTolerable dressing ''sesame'' [''sesame_oil'']"
    by (simp add: dressing_def isAllergenTolerable_def isRelatedToAllergen_def relations_def)
  have fr: "flagReason [''sesame_oil''] dressing
      = quoted ''dressing'' @ '' contains ingredient flag(s): sesame_oil''"
    by (simp add: flagReason_def forbiddenFlagsOf_def dressing_def)
  have n: "noodles \<in> set (components wheat_noodles)"
    by (simp add: wheat_noodles_def)
  have g: "\<exists>a \<in> set (contains_allergens noodles).
      a \<in> set [''gluten''] \<and> \<not> isAllergenTolerable noodles a [''sesame_oil'']"
    by (simp add: noodles_def isAllergenTolerable_def isRelatedToAllergen_def relations_def)
  have g': "\<not> isAllergenTolerable noodles ''gluten'' [''sesame_oil'']"
    by (simp add: noodles_def isAllergenTolerable_def isRelatedToAllergen_def relations_def)
  have ar: "allergenReason [''gluten''] [''sesame_oil''] noodles
      = quoted ''noodles'' @ '' contains intolerable allergen(s): gluten''"
    by (simp add: allergenReason_def intolerableAllergens_def noodles_def
          isAllergenTolerable_def isRelatedToAllergen_def relations_def)
  have e: "safe emptyResults = []"
    by (simp add: emptyResults_def)
  show ?thesis
    using c f t fr n g g' ar e
      no_silent_drop [of dressing wheat_noodles "[''sesame_oil'']" "[''sesame'']" False
        "[''sesame_oil'']" "[]"]
      no_silent_drop [of noodles wheat_noodles "[]" "[''gluten'']" False "[''sesame_oil'']" "[]"
        "[]" emptyResults]
    by simp
qed

subsection \<open>C7: joint application of the modifications\<close>

text \<open>
  Claim C7: for an item that passes the dietary check and fails the compliance check, the
  applicable modifications (those whose trigger allergens meet the avoided allergens or
  whose trigger flags meet the avoided flags) are applied one after the other to a single
  working copy of the component list; the item is pushed onto canBeModified, listing
  exactly those modifications, if the re-check of the resulting components with the
  item's own cross-contact list reports no issue, and onto filtered otherwise.
\<close>

theorem joint_modification_application:
  assumes diet: "fst (checkDietaryCompliance item dp [])"
      and bad: "\<not> fst (checkCompliance item al af cc tf [])"
  shows "filterItem dp al af cc tf item res =
     (let applicable =
            filter (\<lambda>m. case mod_when m of None \<Rightarrow> False
                        | Some w \<Rightarrow> set (avoid_allergens w) \<inter> set al \<noteq> {}
                                  \<or> set (avoid_ingredient_flags w) \<inter> set af \<noteq> {})
              (item_modifications item);
          effective = fold (\<lambda>m working. applyModification working m) applicable (components item);
          verdict = (initialStatus item)\<lparr>reasons := snd (checkCompliance item al af cc tf [])\<rparr>
      in if fst (checkComplianceOnComponents effective (cross_contact_risk item) al af cc tf [])
         then res\<lparr>canBeModified := canBeModified res @ [verdict\<lparr>modifications := Some applicable\<rparr>]\<rparr>
         else res\<lparr>filtered := filtered res @ [verdict]\<rparr>)"
proof -
  have app: "filter (\<lambda>m. case mod_when m of None \<Rightarrow> False
                        | Some w \<Rightarrow> set (avoid_allergens w) \<inter> set al \<noteq> {}
                                  \<or> set (avoid_ingredient_flags w) \<inter> set af \<noteq> {})
              (item_modifications item)
             = filter (isApplicable al af) (item_modifications item)"
    by (simp only: isApplicable_iff [symmetric])
  have rs: "snd (checkDietaryCompliance item dp []) = []"
    using diet by (rule checkDietaryCompliance_True)
  have nomods: "\<not> canModificationsMakeItemSafe item al af cc tf" if "item_modifications item = []"
    using that by (simp add: canModificationsMakeItemSafe_def)
  show ?thesis
    unfolding app Let_def
    using diet bad nomods canModificationsMakeItemSafe_iff [OF bad]
    by (simp add: filterItem_def rs Let_def getApplicableModifications_def)
qed

text \<open>
  The bowl has gluten in its noodles and sesame in its topping. Substituting the noodles
  alone leaves the sesame, removing the topping alone leaves the gluten; both together
  clear the item, which lands in canBeModified with both modifications listed.
\<close>

theorem joint_modification_application_witness:
  "fst (checkDietaryCompliance sesame_bowl [''vegetarian''] [])
   \<and> \<not> fst (checkCompliance sesame_bowl [''gluten'', ''sesame''] [] False [] [])
   \<and> \<not> fst (checkComplianceOnComponents
              (applyModification (components sesame_bowl) substitute_noodles)
              (cross_contact_risk sesame_bowl) [''gluten'', ''sesame''] [] False [] [])
   \<and> \<not> fst (checkComplianceOnComponents
              (applyModification (components sesame_bowl) remove_topping)
              (cross_contact_risk sesame_bowl) [''gluten'', ''sesame''] [] False [] [])
   \<and> filterItem [''vegetarian''] [''gluten'', ''sesame''] [] False [] sesame_bowl emptyResults
     = \<lparr>safe = [], filtered = [],
        canBeModified =
          [\<lparr>status_id = ''m4'', status_name = ''Sesame noodle bowl'', status_category = ''mains'',
            reasons = [quoted ''noodles'' @ '' contains intolerable allergen(s): gluten'',
                       quoted ''sesame topping'' @ '' contains intolerable allergen(s): sesame''],
            modifications = Some [substitute_noodles, remove_topping],
            tolerance_notes = None, toleranceAllowed = False\<rparr>]\<rparr>"
proof -
  have d: "fst (checkDietaryCompliance sesame_bowl [''vegetarian''] [])"
    by (simp add: demo_defs engine_defs)
  have b: "\<not> fst (checkCompliance sesame_bowl [''gluten'', ''sesame''] [] False [] [])"
    by (simp add: demo_defs engine_defs)
  have one: "\<not> fst (checkComplianceOnComponents
              (applyModification (components sesame_bowl) substitute_noodles)
              (cross_contact_risk sesame_bowl) [''gluten'', ''sesame''] [] False [] [])"
    by (simp add: demo_defs engine_defs)
  have other: "\<not> fst (checkComplianceOnComponents
              (applyModification (components sesame_bowl) remove_topping)
              (cross_contact_risk sesame_bowl) [''gluten'', ''sesame''] [] False [] [])"
    by (simp add: demo_defs engine_defs)
  have both: "filterItem [''vegetarian''] [''gluten'', ''sesame''] [] False [] sesame_bowl emptyResults
     = \<lparr>safe = [], filtered = [],
        canBeModified =
          [\<lparr>status_id = ''m4'', status_name = ''Sesame noodle bowl'', status_category = ''mains'',
            reasons = [quoted ''noodles'' @ '' contains intolerable allergen(s): gluten'',
                       quoted ''sesame topping'' @ '' contains intolerable allergen(s): sesame''],
            modifications = Some [substitute_noodles, remove_topping],
            tolerance_notes = None, toleranceAllowed = False\<rparr>]\<rparr>"
    using joint_modification_application [OF d b, of emptyResults]
    by (simp add: demo_defs engine_defs)
  from d b one other both show ?thesis by simp
qed

subsection \<open>C8: cross-contact gating\<close>

text \<open>
  Claim C8: an item that passes the dietary check, whose components hold no avoided
  allergen and no avoided flag, and whose cross-contact list meets the avoided allergens,
  is filtered with the cross-contact reason as its only reason when cross-contact is not
  accepted, and safe without a reason when it is accepted.
\<close>

theorem cross_contact_gating:
  assumes diet: "fst (checkDietaryCompliance item dp [])"
      and clean: "\<forall>c \<in> set (components item).
                    set (contains_allergens c) \<inter> set al = {}
                    \<and> set (contains_ingredient_flags c) \<inter> set af = {}"
      and risk: "set (cross_contact_risk item) \<inter> set al \<noteq> {}"
  shows "filterItem dp al af False tf item res =
           res\<lparr>filtered := filtered res @
             [(initialStatus item)\<lparr>reasons :=
                [''Cross-contact risk: ''
                   @ join (filter (\<lambda>risk. risk \<in> set al) (cross_contact_risk item)) '', '']\<rparr>]\<rparr>
       \<and> filterItem dp al af True tf item res = res\<lparr>safe := safe res @ [initialStatus item]\<rparr>"
proof -
  have rs: "snd (checkDietaryCompliance item dp []) = []"
    using diet by (rule checkDietaryCompliance_True)
  have al: "al \<noteq> []" and ccr: "cross_contact_risk item \<noteq> []"
    using risk by auto
  have forb: "filter (\<lambda>risk. risk \<in> set al) (cross_contact_risk item) \<noteq> []"
    using risk by (auto simp: filter_empty_conv)
  have off: "checkCompliance item al af False tf [] =
      (False, [''Cross-contact risk: ''
                 @ join (filter (\<lambda>risk. risk \<in> set al) (cross_contact_risk item)) '', ''])"
    using al ccr forb
    by (simp add: checkCompliance_def fold_checkCompliance_component_clean [OF clean]
          checkCrossContact_def Let_def)
  have on: "checkCompliance item al af True tf [] = (True, [])"
    using al
    by (simp add: checkCompliance_def fold_checkCompliance_component_clean [OF clean]
          checkCrossContact_def Let_def)
  have recheck: "\<not> fst (checkComplianceOnComponents comps (cross_contact_risk item) al af False tf [])"
    for comps
    using forb by (simp add: checkComplianceOnComponents_fst)
  have nomod: "\<not> canModificationsMakeItemSafe item al af False tf"
    using recheck by (simp add: canModificationsMakeItemSafe_def Let_def)
  show ?thesis
    using diet nomod by (simp add: filterItem_def rs off on Let_def initialStatus_no_reasons)
qed

theorem cross_contact_gating_witness:
  "fst (checkDietaryCompliance fried_tofu [''vegan''] [])
   \<and> list_all (\<lambda>c. set (contains_allergens c) \<inter> set [''peanut''] = {}
                  \<and> set (contains_ingredient_flags c) \<inter> set [] = {}) (components fried_tofu)
   \<and> set (cross_contact_risk fried_tofu) \<inter> set [''peanut''] \<noteq> {}
   \<and> filterItem [''vegan''] [''peanut''] [] False [] fried_tofu emptyResults
       = \<lparr>safe = [],
          filtered = [(initialStatus fried_tofu)\<lparr>reasons := [''Cross-contact risk: peanut'']\<rparr>],
          canBeModified = []\<rparr>
   \<and> filterItem [''vegan''] [''peanut''] [] True [] fried_tofu emptyResults
       = \<lparr>safe = [initialStatus fried_tofu], filtered = [], canBeModified = []\<rparr>"
proof -
  have d: "fst (checkDietaryCompliance fried_tofu [''vegan''] [])"
    by (simp add: demo_defs engine_defs)
  have c: "\<forall>c \<in> set (components fried_tofu).
             set (contains_allergens c) \<inter> set [''peanut''] = {}
             \<and> set (contains_ingredient_flags c) \<inter> set [] = {}"
    by (simp add: demo_defs)
  have r: "set (cross_contact_risk fried_tofu) \<inter> set [''peanut''] \<noteq> {}"
    by (simp add: demo_defs)
  show ?thesis
    using d c r cross_contact_gating [OF d c r, of "[]" emptyResults]
    by (simp add: emptyResults_def list_all_iff fried_tofu_def tofu_def)
qed

subsection \<open>C9: the empty profile\<close>

text \<open>
  Claim C9: the combined evaluation of a profile without any field (no dietary
  preference, no avoided allergen, no avoided or tolerated flag, cross-contact not
  accepted) is not an error: every catalog item is in the bucket safe with an empty reason
  list, and the buckets filtered and canBeModified are empty. The report for the profile
  object without fields is the same safe list, with an empty mapping.
\<close>

theorem empty_profile_all_safe:
  "filterByDietaryAndAllergies menu [] [] [] False []
     = \<lparr>safe = map initialStatus menu, filtered = [], canBeModified = []\<rparr>
   \<and> runMultiAllergyReport menu emptyProfile
     = \<lparr>safeForAll = map initialStatus menu, safeByAllergy = Map.empty\<rparr>
   \<and> reasons (initialStatus item) = []"
  by (simp add: filterByDietaryAndAllergies_def fold_filterItem_empty emptyResults_def
      runMultiAllergyReport_def emptyProfile_def orDefault_def initialStatus_def)

theorem empty_profile_all_safe_witness:
  "filterByDietaryAndAllergies demo_menu [] [] [] False []
     = \<lparr>safe = [initialStatus steamed_rice, initialStatus glazed_chicken, initialStatus wheat_noodles],
        filtered = [], canBeModified = []\<rparr>
   \<and> reasons (initialStatus glazed_chicken) = []"
  using empty_profile_all_safe [of demo_menu glazed_chicken] by (simp add: demo_menu_def)

subsection \<open>C10: unknown dietary preferences\<close>

text \<open>
  Claim C10: a dietary preference list that holds neither vegetarian nor vegan passes
  every item and records no reason; the whole evaluation is the one without dietary
  preferences.
\<close>

theorem unknown_preferences_ignored:
  assumes "''vegetarian'' \<notin> set prefs" and "''vegan'' \<notin> set prefs"
  shows "checkDietaryCompliance item prefs rs = (True, rs)
     \<and> filterByDietaryAndAllergies menu prefs al af cc tf = filterByDietaryAndAllergies menu [] al af cc tf"
proof -
  have "filterItem prefs al af cc tf = filterItem [] al af cc tf"
    by (rule ext, rule ext) (simp add: filterItem_def checkDietaryCompliance_unknown [OF assms]
        checkDietaryCompliance_unknown [of "[]"])
  then show ?thesis
    by (simp add: filterByDietaryAndAllergies_def checkDietaryCompliance_unknown [OF assms])
qed

theorem unknown_preferences_ignored_witness:
  "''vegetarian'' \<notin> set [''halal'', ''pescatarian''] \<and> ''vegan'' \<notin> set [''halal'', ''pescatarian'']
   \<and> tags glazed_chicken = []
   \<and> checkDietaryCompliance glazed_chicken [''halal'', ''pescatarian''] [] = (True, [])
   \<and> filterByDietaryAndAllergies demo_menu [''halal'', ''pescatarian''] [] [] False []
       = filterByDietaryAndAllergies demo_menu [] [] [] False []"
  using unknown_preferences_ignored [of "[''halal'', ''pescatarian'']" glazed_chicken "[]" demo_menu
      "[]" "[]" False "[]"]
  by (simp add: demo_defs)

end
